theory Spec2Isabelle
  imports Main
begin

section \<open>Strings\<close>

text \<open>
  A PHP string is a sequence of bytes and \<open>strlen\<close> counts bytes, so a PHP string is a
  \<^typ>\<open>string\<close>. The values of the form controls on the client are modelled by the
  same type: a character stands for one code unit below 256.
\<close>

definition strlen :: "string \<Rightarrow> nat" where
  "strlen s = length s"

text \<open>
  PHP's \<open>empty\<close> on a string: true for the empty string and for the string \<open>"0"\<close>,
  false for every other string.
\<close>

definition php_empty :: "string \<Rightarrow> bool" where
  "php_empty s = (s = [] \<or> s = ''0'')"

text \<open>
  \<open>in_array\<close> without the strict flag compares with \<open>==\<close>. Two strings are compared
  as numbers only when both are numeric; the haystack of this program holds no
  numeric string, so the comparison is equality of strings.
\<close>

definition in_array :: "string \<Rightarrow> string list \<Rightarrow> bool" where
  "in_array needle haystack = (needle \<in> set haystack)"

fun implode :: "string \<Rightarrow> string list \<Rightarrow> string" where
  "implode sep [] = []"
| "implode sep [x] = x"
| "implode sep (x # y # ys) = x @ sep @ implode sep (y # ys)"

section \<open>The server: process_form.php\<close>

subsection \<open>What config.php supplies\<close>

text \<open>
  The functions \<open>sanitizeInput\<close>, \<open>validateEmail\<close>, \<open>getClientIP\<close> and
  \<open>getUserAgent\<close> and the constant \<open>DEBUG_MODE\<close> come from config.php, which the
  script includes. They are parameters of the model.
\<close>

record request =
  request_method :: string
  post :: "string \<rightharpoonup> string"
  remote_addr :: string
  http_user_agent :: string

record config =
  sanitizeInput :: "string \<Rightarrow> string"
  validateEmail :: "string \<Rightarrow> bool"
  getClientIP :: "request \<Rightarrow> string"
  getUserAgent :: "request \<Rightarrow> string"
  DEBUG_MODE :: bool

subsection \<open>The response\<close>

record json =
  json_success :: bool
  json_message :: string
  json_errors :: "string list option"
  json_id :: "nat option"

text \<open>
  A response is a status code with a JSON body; a PHP \<open>Error\<close> that nothing catches
  ends the script without one.
\<close>

datatype response = Json nat json | Uncaught string

subsection \<open>Retrieving the form data\<close>

text \<open>\<open>isset($_POST[k]) ? sanitizeInput($_POST[k]) : ''\<close>\<close>

definition post_field :: "config \<Rightarrow> request \<Rightarrow> string \<Rightarrow> string" where
  "post_field cfg req k = (case post req k of Some v \<Rightarrow> sanitizeInput cfg v | None \<Rightarrow> [])"

subsection \<open>Validation\<close>

text \<open>
  Each block of the script appends to \<open>$errors\<close>; a block is a function from the
  list before it to the list after it.
\<close>

definition validate_fullName :: "string \<Rightarrow> string list \<Rightarrow> string list" where
  "validate_fullName fullName errors =
     (if php_empty fullName then errors @ [''Full name is required.'']
      else if strlen fullName < 2 then errors @ [''Full name must be at least 2 characters long.'']
      else if strlen fullName > 100 then errors @ [''Full name must not exceed 100 characters.'']
      else errors)"

definition validate_email :: "config \<Rightarrow> string \<Rightarrow> string list \<Rightarrow> string list" where
  "validate_email cfg email errors =
     (if php_empty email then errors @ [''Email address is required.'']
      else if \<not> validateEmail cfg email then errors @ [''Please provide a valid email address.'']
      else if strlen email > 255 then errors @ [''Email address is too long.'']
      else errors)"

definition validate_subject :: "string \<Rightarrow> string list \<Rightarrow> string list" where
  "validate_subject subject errors =
     (if php_empty subject then errors @ [''Subject is required.'']
      else if strlen subject < 3 then errors @ [''Subject must be at least 3 characters long.'']
      else if strlen subject > 255 then errors @ [''Subject must not exceed 255 characters.'']
      else errors)"

definition validReasons :: "string list" where
  "validReasons = [''job'', ''project'', ''feedback'', ''other'']"

definition validate_reason :: "string \<Rightarrow> string list \<Rightarrow> string list" where
  "validate_reason reason errors =
     (if php_empty reason then errors @ [''Please select a reason for contact.'']
      else if \<not> in_array reason validReasons then errors @ [''Invalid reason selected.'']
      else errors)"

definition validate_message :: "string \<Rightarrow> string list \<Rightarrow> string list" where
  "validate_message message errors =
     (if php_empty message then errors @ [''Message is required.'']
      else if strlen message < 10 then errors @ [''Message must be at least 10 characters long.'']
      else if strlen message > 5000 then errors @ [''Message must not exceed 5000 characters.'']
      else errors)"

text \<open>The validation section: \<open>$errors = []\<close>, then the five blocks in the script's order.\<close>

definition validate ::
  "config \<Rightarrow> string \<Rightarrow> string \<Rightarrow> string \<Rightarrow> string \<Rightarrow> string \<Rightarrow> string list" where
  "validate cfg fullName email subject reason message =
     validate_message message
       (validate_reason reason
         (validate_subject subject
           (validate_email cfg email
             (validate_fullName fullName []))))"

subsection \<open>Spam protection\<close>

text \<open>\<open>isset($_POST['website']) && !empty($_POST['website'])\<close>\<close>

definition honeypot :: "request \<Rightarrow> bool" where
  "honeypot req = (case post req ''website'' of Some v \<Rightarrow> \<not> php_empty v | None \<Rightarrow> False)"

subsection \<open>The database\<close>

record row =
  col_full_name :: string
  col_email :: string
  col_subject :: string
  col_reason :: string
  col_message :: string
  col_ip_address :: string
  col_user_agent :: string

text \<open>
  The state outside the script: the table \<open>contact_messages\<close> with the identifier the
  store gives to the next row, the number of connections ever opened, the connections
  and statements open now, and the error log.
\<close>

record world =
  contact_messages :: "(nat \<times> row) list"
  next_id :: nat
  connects :: nat
  open_conns :: nat
  open_stmts :: nat
  error_log :: "string list"

text \<open>
  How the database answers one request. \<open>getDatabaseConnection\<close> returns a connection,
  throws an exception, or returns a value that is no connection; \<open>prepare\<close> returns a
  statement, returns false (with \<open>$conn->error\<close>) or throws; \<open>execute\<close> returns true,
  returns false (with \<open>$stmt->error\<close>) or throws. A factory that throws or returns no
  connection leaves none open.
\<close>

datatype connect_outcome = ConnOk | ConnThrows string | ConnNone

datatype prepare_outcome = PrepOk | PrepFalse string | PrepThrows string

datatype execute_outcome = ExecTrue | ExecFalse string | ExecThrows string

record database =
  on_connect :: connect_outcome
  on_prepare :: prepare_outcome
  on_execute :: execute_outcome

text \<open>
  The variables \<open>$conn\<close> and \<open>$stmt\<close> as the catch block sees them: \<open>None\<close> when
  unset, \<open>Some b\<close> when set, \<open>b\<close> telling whether the value is truthy.
\<close>

record locals =
  conn :: "bool option"
  stmt :: "bool option"

datatype 'a outcome = Returned 'a | Exception string | Error string

definition stmt_close :: "world \<Rightarrow> world" where
  "stmt_close w = w\<lparr>open_stmts := open_stmts w - 1\<rparr>"

definition conn_close :: "world \<Rightarrow> world" where
  "conn_close w = w\<lparr>open_conns := open_conns w - 1\<rparr>"

text \<open>The body of the \<open>try\<close>.\<close>

definition try_insert :: "database \<Rightarrow> row \<Rightarrow> world \<Rightarrow> response outcome \<times> locals \<times> world" where
  "try_insert db r w =
     (case on_connect db of
        ConnThrows m \<Rightarrow> (Exception m, \<lparr>conn = None, stmt = None\<rparr>, w)
      | ConnNone \<Rightarrow>
          (Error ''Call to a member function prepare() on null'',
           \<lparr>conn = Some False, stmt = None\<rparr>, w)
      | ConnOk \<Rightarrow>
          (let w1 = w\<lparr>connects := Suc (connects w), open_conns := Suc (open_conns w)\<rparr> in
           case on_prepare db of
             PrepThrows m \<Rightarrow> (Exception m, \<lparr>conn = Some True, stmt = None\<rparr>, w1)
           | PrepFalse e \<Rightarrow>
               (Exception (''Failed to prepare statement: '' @ e),
                \<lparr>conn = Some True, stmt = Some False\<rparr>, w1)
           | PrepOk \<Rightarrow>
               (let w2 = w1\<lparr>open_stmts := Suc (open_stmts w1)\<rparr> in
                case on_execute db of
                  ExecThrows m \<Rightarrow> (Exception m, \<lparr>conn = Some True, stmt = Some True\<rparr>, w2)
                | ExecFalse e \<Rightarrow>
                    (Exception (''Failed to insert data: '' @ e),
                     \<lparr>conn = Some True, stmt = Some True\<rparr>, w2)
                | ExecTrue \<Rightarrow>
                    (let insertId = next_id w2;
                         w3 = w2\<lparr>contact_messages := contact_messages w2 @ [(insertId, r)],
                                 next_id := Suc insertId\<rparr>;
                         w4 = stmt_close w3;
                         w5 = conn_close w4
                     in (Returned (Json 200
                           \<lparr>json_success = True,
                            json_message = ''Thank you for your message! I will get back to you soon.'',
                            json_errors = None,
                            json_id = Some insertId\<rparr>),
                         \<lparr>conn = Some True, stmt = Some True\<rparr>, w5)))))"

text \<open>The \<open>catch (Exception $e)\<close> block.\<close>

definition catch_exception :: "config \<Rightarrow> string \<Rightarrow> locals \<Rightarrow> world \<Rightarrow> response \<times> world" where
  "catch_exception cfg m l w =
     (let w1 = w\<lparr>error_log := error_log w @ [''Form submission error: '' @ m]\<rparr>;
          w2 = (if stmt l = Some True then stmt_close w1 else w1);
          w3 = (if conn l = Some True then conn_close w2 else w2)
      in (Json 500
            \<lparr>json_success = False,
             json_message =
               (if DEBUG_MODE cfg then ''Database error: '' @ m
                else ''An error occurred while processing your request. Please try again later.''),
             json_errors = None,
             json_id = None\<rparr>, w3))"

text \<open>The database insertion section: the \<open>try\<close> with its \<open>catch\<close>.\<close>

definition database_insertion :: "config \<Rightarrow> database \<Rightarrow> row \<Rightarrow> world \<Rightarrow> response \<times> world" where
  "database_insertion cfg db r w =
     (case try_insert db r w of
        (Returned resp, l, w') \<Rightarrow> (resp, w')
      | (Exception m, l, w') \<Rightarrow> catch_exception cfg m l w'
      | (Error m, l, w') \<Rightarrow> (Uncaught m, w'))"

subsection \<open>The script\<close>

definition method_not_allowed :: response where
  "method_not_allowed = Json 405
     \<lparr>json_success = False,
      json_message = ''Method not allowed. Only POST requests are accepted.'',
      json_errors = None,
      json_id = None\<rparr>"

definition validation_failed :: "string list \<Rightarrow> response" where
  "validation_failed errors = Json 400
     \<lparr>json_success = False,
      json_message = ''Validation failed: '' @ implode '' '' errors,
      json_errors = Some errors,
      json_id = None\<rparr>"

definition spam_detected :: response where
  "spam_detected = Json 400
     \<lparr>json_success = False,
      json_message = ''Spam detected.'',
      json_errors = None,
      json_id = None\<rparr>"

definition process_form :: "config \<Rightarrow> database \<Rightarrow> request \<Rightarrow> world \<Rightarrow> response \<times> world" where
  "process_form cfg db req w =
     (if request_method req \<noteq> ''POST'' then (method_not_allowed, w)
      else
        let fullName = post_field cfg req ''fullname'';
            email = post_field cfg req ''email'';
            subject = post_field cfg req ''subject'';
            reason = post_field cfg req ''reason'';
            message = post_field cfg req ''message'';
            ipAddress = getClientIP cfg req;
            userAgent = getUserAgent cfg req;
            errors = validate cfg fullName email subject reason message
        in if errors \<noteq> [] then (validation_failed errors, w)
           else if honeypot req then (spam_detected, w)
           else database_insertion cfg db
                  \<lparr>col_full_name = fullName, col_email = email, col_subject = subject,
                   col_reason = reason, col_message = message,
                   col_ip_address = ipAddress, col_user_agent = userAgent\<rparr> w)"

section \<open>The client: the contact form\<close>

subsection \<open>Strings and the email pattern\<close>

text \<open>
  White space and line terminators of JavaScript among the code units below 256:
  what \<open>trim\<close> removes and what \<open>\s\<close> matches.
\<close>

definition js_space :: "char \<Rightarrow> bool" where
  "js_space c = (c = CHR 0x09 \<or> c = CHR 0x0A \<or> c = CHR 0x0B \<or> c = CHR 0x0C
                 \<or> c = CHR 0x0D \<or> c = CHR 0x20 \<or> c = CHR 0xA0)"

definition trim :: "string \<Rightarrow> string" where
  "trim s = rev (dropWhile js_space (rev (dropWhile js_space s)))"

text \<open>
  The pattern \<open>/^[^\s@]+@[^\s@]+\.[^\s@]+$/\<close> is a sequence of atoms, each a literal
  character or one or more characters of a class; between \<open>^\<close> and \<open>$\<close> (no flags) the
  whole string has to match the sequence, cut at any positions.
\<close>

datatype atom = Lit char | ClassPlus "char \<Rightarrow> bool"

fun match_atom :: "atom \<Rightarrow> string \<Rightarrow> bool" where
  "match_atom (Lit c) s = (s = [c])"
| "match_atom (ClassPlus p) s = (s \<noteq> [] \<and> list_all p s)"

fun match_seq :: "atom list \<Rightarrow> string \<Rightarrow> bool" where
  "match_seq [] s = (s = [])"
| "match_seq (a # as) s =
     list_ex (\<lambda>i. match_atom a (take i s) \<and> match_seq as (drop i s)) [0..<Suc (length s)]"

definition not_space_at :: "char \<Rightarrow> bool" where
  "not_space_at c = (\<not> js_space c \<and> c \<noteq> CHR ''@'')"

definition emailRegex :: "atom list" where
  "emailRegex =
     [ClassPlus not_space_at, Lit CHR ''@'', ClassPlus not_space_at, Lit CHR ''.'',
      ClassPlus not_space_at]"

definition isValidEmail :: "string \<Rightarrow> bool" where
  "isValidEmail email = match_seq emailRegex email"


text \<open>
  The shape \<open>local@domain\<close> in the words of the specification: a local part, \<open>@\<close> and
  a domain, both non-empty and free of white space and \<open>@\<close>. No dot is asked for.
\<close>

definition local_at_domain :: "string \<Rightarrow> bool" where
  "local_at_domain s =
     (\<exists>l d. s = l @ ''@'' @ d \<and> l \<noteq> [] \<and> d \<noteq> [] \<and> list_all not_space_at (l @ d))"

subsection \<open>Form controls\<close>

text \<open>
  The five controls of the form are told apart by what \<open>querySelector\<close> is asked for.
  A control has a value, may carry the class \<open>error\<close>, and has a parent element,
  identified by a number; two controls with the same number share their parent. Of
  each parent the form records the \<open>.error-message\<close> element that \<open>querySelector\<close>
  finds in it: none, or its text and whether it is displayed. Parents that lie inside
  one another are not modelled.
\<close>

record input =
  val :: string
  error_class :: bool
  parentElement :: nat

record form =
  fullname :: input
  email :: input
  reason :: input
  subject :: input
  message :: input
  error_message :: "nat \<rightharpoonup> string \<times> bool"

datatype control = Fullname | Email | Reason | Subject | Message

fun element :: "form \<Rightarrow> control \<Rightarrow> input" where
  "element f Fullname = fullname f"
| "element f Email = email f"
| "element f Reason = reason f"
| "element f Subject = subject f"
| "element f Message = message f"

text \<open>\<open>classList.add('error')\<close> and \<open>classList.remove('error')\<close> on a control.\<close>

fun classList_error :: "control \<Rightarrow> bool \<Rightarrow> form \<Rightarrow> form" where
  "classList_error Fullname b f = f\<lparr>fullname := (fullname f)\<lparr>error_class := b\<rparr>\<rparr>"
| "classList_error Email b f = f\<lparr>email := (email f)\<lparr>error_class := b\<rparr>\<rparr>"
| "classList_error Reason b f = f\<lparr>reason := (reason f)\<lparr>error_class := b\<rparr>\<rparr>"
| "classList_error Subject b f = f\<lparr>subject := (subject f)\<lparr>error_class := b\<rparr>\<rparr>"
| "classList_error Message b f = f\<lparr>message := (message f)\<lparr>error_class := b\<rparr>\<rparr>"

text \<open>
  \<open>showError\<close> adds the class, takes the error element of the parent or creates one,
  and sets its text and displays it.
\<close>

definition showError :: "form \<Rightarrow> control \<Rightarrow> string \<Rightarrow> form" where
  "showError f inp m =
     (let formGroup = parentElement (element f inp)
      in (classList_error inp True f)
           \<lparr>error_message := (error_message f)(formGroup \<mapsto> (m, True))\<rparr>)"

text \<open>\<open>clearError\<close> removes the class and hides the error element of the parent, if any.\<close>

definition clearError :: "form \<Rightarrow> control \<Rightarrow> form" where
  "clearError f inp =
     (let formGroup = parentElement (element f inp)
      in (classList_error inp False f)
           \<lparr>error_message :=
              (case error_message f formGroup of
                 None \<Rightarrow> error_message f
               | Some (t, d) \<Rightarrow> (error_message f)(formGroup \<mapsto> (t, False)))\<rparr>)"

subsection \<open>validateForm\<close>

text \<open>
  Each block of \<open>validateForm\<close> may clear \<open>isValid\<close> and annotate its control; a
  block is a function on the pair of the flag and the form.
\<close>

fun check_fullname :: "bool \<times> form \<Rightarrow> bool \<times> form" where
  "check_fullname (isValid, f) =
     (if trim (val (fullname f)) = []
      then (False, showError f Fullname ''Please enter your full name'')
      else (isValid, f))"

fun check_email :: "bool \<times> form \<Rightarrow> bool \<times> form" where
  "check_email (isValid, f) =
     (if trim (val (email f)) = []
      then (False, showError f Email ''Please enter your email address'')
      else if \<not> isValidEmail (trim (val (email f)))
      then (False, showError f Email ''Please enter a valid email address'')
      else (isValid, f))"

fun check_reason :: "bool \<times> form \<Rightarrow> bool \<times> form" where
  "check_reason (isValid, f) =
     (if val (reason f) = []
      then (False, showError f Reason ''Please select a reason for contact'')
      else (isValid, f))"

fun check_subject :: "bool \<times> form \<Rightarrow> bool \<times> form" where
  "check_subject (isValid, f) =
     (if trim (val (subject f)) = []
      then (False, showError f Subject ''Please enter a subject'')
      else (isValid, f))"

fun check_message :: "bool \<times> form \<Rightarrow> bool \<times> form" where
  "check_message (isValid, f) =
     (if trim (val (message f)) = []
      then (False, showError f Message ''Please enter your message'')
      else if length (trim (val (message f))) < 10
      then (False, showError f Message ''Message must be at least 10 characters long'')
      else (isValid, f))"

text \<open>
  \<open>isValid\<close> starts true, the errors of the five controls are cleared in the order
  of the array, and the blocks run in the order of the source.
\<close>

definition validateForm :: "form \<Rightarrow> bool \<times> form" where
  "validateForm form0 =
     check_message (check_subject (check_reason (check_email (check_fullname
       (True, foldl clearError form0 [Fullname, Email, Reason, Subject, Message])))))"

subsection \<open>The states between the blocks\<close>

text \<open>No block changes the value or the parent of a control.\<close>

definition same_controls :: "form \<Rightarrow> form \<Rightarrow> bool" where
  "same_controls f g =
     (val (fullname f) = val (fullname g) \<and> val (email f) = val (email g)
      \<and> val (reason f) = val (reason g) \<and> val (subject f) = val (subject g)
      \<and> val (message f) = val (message g)
      \<and> parentElement (fullname f) = parentElement (fullname g)
      \<and> parentElement (email f) = parentElement (email g)
      \<and> parentElement (reason f) = parentElement (reason g)
      \<and> parentElement (subject f) = parentElement (subject g)
      \<and> parentElement (message f) = parentElement (message g))"

text \<open>The states between the blocks of \<open>validateForm\<close>.\<close>

definition after_clear :: "form \<Rightarrow> bool \<times> form" where
  "after_clear f = (True, foldl clearError f [Fullname, Email, Reason, Subject, Message])"

definition after_fullname :: "form \<Rightarrow> bool \<times> form" where
  "after_fullname f = check_fullname (after_clear f)"

definition after_email :: "form \<Rightarrow> bool \<times> form" where
  "after_email f = check_email (after_fullname f)"

definition after_reason :: "form \<Rightarrow> bool \<times> form" where
  "after_reason f = check_reason (after_email f)"

definition after_subject :: "form \<Rightarrow> bool \<times> form" where
  "after_subject f = check_subject (after_reason f)"

subsection \<open>The submit handler\<close>

record button =
  disabled :: bool
  textContent :: string
  opacity :: string

text \<open>
  The page around the form: the form and its \<open>display\<close> style, the submit button,
  whether the confirmation is appended, the error banner, what was written to the
  console, and the number of requests sent.
\<close>

record page =
  contact_form :: form
  form_display :: string
  submitButton :: button
  success_message :: bool
  submission_error :: "string option"
  console_error :: "string list"
  fetches :: nat

text \<open>
  How the request settles: \<open>fetch\<close> rejects, or resolves to a response with its \<open>ok\<close>
  flag and its body as \<open>response.json()\<close> parses it (\<open>None\<close> when parsing rejects).
\<close>

datatype fetch_outcome = NetworkError | Response bool "json option"

definition showSuccessMessage :: "page \<Rightarrow> page" where
  "showSuccessMessage p = p\<lparr>form_display := ''none'', success_message := True\<rparr>"

definition showSubmissionError :: "page \<Rightarrow> string \<Rightarrow> page" where
  "showSubmissionError p errorMessage = p\<lparr>submission_error := Some errorMessage\<rparr>"

text \<open>The \<open>catch\<close> block.\<close>

definition catch_fetch :: "page \<Rightarrow> page" where
  "catch_fetch p =
     showSubmissionError (p\<lparr>console_error := console_error p @ [''Form submission error:'']\<rparr>)
       ''Network error. Please check your connection and try again.''"

text \<open>The \<open>try\<close> block with its \<open>catch\<close>, from the moment the request settles.\<close>

definition try_fetch :: "page \<Rightarrow> fetch_outcome \<Rightarrow> page" where
  "try_fetch p out =
     (case out of
        NetworkError \<Rightarrow> catch_fetch p
      | Response ok body \<Rightarrow>
          if ok then
            (case body of
               None \<Rightarrow> catch_fetch p
             | Some result \<Rightarrow>
                 if json_success result then showSuccessMessage p
                 else showSubmissionError p
                        (if json_message result \<noteq> [] then json_message result
                         else ''Failed to send message. Please try again.''))
          else showSubmissionError p ''Server error. Please try again later.'')"

text \<open>The listener on \<open>submit\<close>, with the outcome of the request it may send.\<close>

definition submit :: "page \<Rightarrow> fetch_outcome \<Rightarrow> page" where
  "submit p0 out =
     (case validateForm (contact_form p0) of
        (valid, f) \<Rightarrow>
          let p1 = p0\<lparr>contact_form := f\<rparr> in
          if \<not> valid then p1
          else
            let originalButtonText = textContent (submitButton p1);
                p2 = p1\<lparr>submitButton := (submitButton p1)
                          \<lparr>disabled := True, textContent := ''Sending...'', opacity := ''0.6''\<rparr>,
                        fetches := Suc (fetches p1)\<rparr>;
                p3 = try_fetch p2 out
            in p3\<lparr>submitButton := (submitButton p3)
                    \<lparr>disabled := False, textContent := originalButtonText, opacity := ''1''\<rparr>\<rparr>)"

section \<open>A configuration\<close>

text \<open>
  Modelled from the spec: config.php is not among the sources. The Input Sanitizer
  removes leading and trailing whitespace and neutralises the characters significant
  in HTML; the email rule asks for a local@domain pattern. The theorems below hold
  for every configuration, or for every configuration with a stated property; this
  one instantiates them.
\<close>

text \<open>Modelled from the spec: the whitespace that the sanitizer removes at both ends.\<close>

definition php_space :: "char \<Rightarrow> bool" where
  "php_space c = (c = CHR '' '' \<or> c = CHR 0x09 \<or> c = CHR 0x0A \<or> c = CHR 0x0D
                  \<or> c = CHR 0x00 \<or> c = CHR 0x0B)"

text \<open>Modelled from the spec: removal of leading and trailing whitespace.\<close>

definition php_trim :: "string \<Rightarrow> string" where
  "php_trim s = rev (dropWhile php_space (rev (dropWhile php_space s)))"

text \<open>Modelled from the spec: the characters significant in HTML become entities.\<close>

fun htmlspecialchars :: "string \<Rightarrow> string" where
  "htmlspecialchars [] = []"
| "htmlspecialchars (c # cs) =
     (if c = CHR ''&'' then ''&amp;''
      else if c = CHR ''<'' then ''&lt;''
      else if c = CHR ''>'' then ''&gt;''
      else if c = CHR 0x22 then ''&quot;''
      else if c = CHR 0x27 then ''&#039;''
      else [c]) @ htmlspecialchars cs"

text \<open>Modelled from the spec: \<open>sanitizeInput\<close> of config.php, trimming and then escaping.\<close>

definition spec_sanitizeInput :: "string \<Rightarrow> string" where
  "spec_sanitizeInput s = htmlspecialchars (php_trim s)"

text \<open>
  Modelled from the spec: \<open>validateEmail\<close> of config.php accepts the shape
  \<open>local@domain\<close>: what stands before the first \<open>@\<close> and what stands after it are
  non-empty and free of white space and \<open>@\<close>.
\<close>

definition spec_validateEmail :: "string \<Rightarrow> bool" where
  "spec_validateEmail s =
     (let local = takeWhile (\<lambda>c. c \<noteq> CHR ''@'') s;
          rest = dropWhile (\<lambda>c. c \<noteq> CHR ''@'') s
      in local \<noteq> [] \<and> rest \<noteq> [] \<and> tl rest \<noteq> []
         \<and> list_all not_space_at (local @ tl rest))"

text \<open>
  Modelled from the spec: the address and the user agent are read from the request, and
  the debug mode is off as in production.
\<close>

definition spec_config :: config where
  "spec_config =
     \<lparr>sanitizeInput = spec_sanitizeInput,
      validateEmail = spec_validateEmail,
      getClientIP = remote_addr,
      getUserAgent = http_user_agent,
      DEBUG_MODE = False\<rparr>"

section \<open>Characters and rules in the words of the specification\<close>

text \<open>
  The specification counts characters; a PHP string holds their UTF-8 encoding. Every
  byte that is not a continuation byte (\<open>10xxxxxx\<close>) begins a character.
\<close>

definition continuation_byte :: "char \<Rightarrow> bool" where
  "continuation_byte c = (128 \<le> (of_char c :: nat) \<and> (of_char c :: nat) < 192)"

definition characters :: "string \<Rightarrow> nat" where
  "characters s = length (filter (\<lambda>c. \<not> continuation_byte c) s)"


text \<open>
  Rules tried in order, each with the message it contributes when it fails: only the
  first rule that fails contributes.
\<close>

fun first_failing :: "(bool \<times> string) list \<Rightarrow> string list" where
  "first_failing [] = []"
| "first_failing ((fails, m) # rules) = (if fails then [m] else first_failing rules)"

section \<open>Concrete inputs\<close>

text \<open>
  The scenarios of the specification, and the inputs at which the statements below
  are evaluated.
\<close>

definition empty_world :: world where
  "empty_world = \<lparr>contact_messages = [], next_id = 1, connects = 0, open_conns = 0,
                   open_stmts = 0, error_log = []\<rparr>"

definition db_up :: database where
  "db_up = \<lparr>on_connect = ConnOk, on_prepare = PrepOk, on_execute = ExecTrue\<rparr>"

definition scenario_A :: request where
  "scenario_A =
     \<lparr>request_method = ''POST'',
      post = [''fullname'' \<mapsto> ''Jane Doe'', ''email'' \<mapsto> ''jane@example.com'',
              ''subject'' \<mapsto> ''Hello'', ''reason'' \<mapsto> ''job'',
              ''message'' \<mapsto> ''I would like to connect regarding an opportunity.''],
      remote_addr = ''203.0.113.7'', http_user_agent = ''Mozilla/5.0''\<rparr>"

definition scenario_B :: request where
  "scenario_B =
     \<lparr>request_method = ''POST'',
      post = [''fullname'' \<mapsto> ''J'', ''email'' \<mapsto> ''bad-email'', ''subject'' \<mapsto> ''Hi'',
              ''reason'' \<mapsto> [], ''message'' \<mapsto> ''short''],
      remote_addr = ''203.0.113.7'', http_user_agent = ''Mozilla/5.0''\<rparr>"

definition scenario_C :: request where
  "scenario_C = scenario_A\<lparr>post := (post scenario_A)(''website'' \<mapsto> ''http://spam.example'')\<rparr>"

definition scenario_D :: request where
  "scenario_D = scenario_A\<lparr>request_method := ''GET''\<rparr>"

definition scenario_B_honeypot :: request where
  "scenario_B_honeypot =
     scenario_B\<lparr>post := (post scenario_B)(''website'' \<mapsto> ''http://spam.example'')\<rparr>"

definition scenario_reason_zero :: request where
  "scenario_reason_zero = scenario_A\<lparr>post := (post scenario_A)(''reason'' \<mapsto> ''0'')\<rparr>"

definition fresh :: "string \<Rightarrow> nat \<Rightarrow> input" where
  "fresh v p = \<lparr>val = v, error_class = False, parentElement = p\<rparr>"

text \<open>Forms in which every control has a parent of its own and no error element yet.\<close>

definition form_A :: form where
  "form_A =
     \<lparr>fullname = fresh ''Jane Doe'' 1, email = fresh ''jane@example.com'' 2,
      reason = fresh ''job'' 3, subject = fresh ''Hello'' 4,
      message = fresh ''I would like to connect regarding an opportunity.'' 5,
      error_message = Map.empty\<rparr>"

definition form_short_name :: form where
  "form_short_name = form_A\<lparr>fullname := fresh ''J'' 1\<rparr>"

definition form_bad_email :: form where
  "form_bad_email = form_A\<lparr>email := fresh ''bad-email'' 2\<rparr>"

definition form_dotless :: form where
  "form_dotless = form_A\<lparr>email := fresh ''a@b'' 2\<rparr>"

definition form_blank :: form where
  "form_blank = \<lparr>fullname = fresh [] 1, email = fresh [] 2, reason = fresh [] 3,
                  subject = fresh [] 4, message = fresh [] 5, error_message = Map.empty\<rparr>"


definition page_A :: page where
  "page_A =
     \<lparr>contact_form = form_A, form_display = ''block'',
      submitButton = \<lparr>disabled = False, textContent = ''Send Message'', opacity = []\<rparr>,
      success_message = False, submission_error = None, console_error = [], fetches = 0\<rparr>"

definition page_dim :: page where
  "page_dim = page_A\<lparr>submitButton := (submitButton page_A)\<lparr>opacity := ''0.5''\<rparr>\<rparr>"

section \<open>Auxiliary facts\<close>

lemmas eval_defs = post_field_def spec_config_def spec_sanitizeInput_def php_trim_def
  php_space_def spec_validateEmail_def not_space_at_def js_space_def scenario_A_def
  scenario_B_def scenario_C_def
  scenario_D_def scenario_B_honeypot_def scenario_reason_zero_def validate_def
  validate_fullName_def validate_email_def validate_subject_def validate_reason_def
  validate_message_def php_empty_def strlen_def in_array_def validReasons_def honeypot_def

lemmas form_defs = form_A_def form_short_name_def form_bad_email_def form_dotless_def
  form_blank_def fresh_def page_A_def page_dim_def trim_def js_space_def



subsection \<open>Each block appends to the list it is given\<close>

lemma php_empty_length: "php_empty s \<Longrightarrow> length s \<le> 1"
  by (auto simp: php_empty_def)

lemma validate_fullName_length: "length (validate_fullName n []) \<le> 1"
  by (simp add: validate_fullName_def)

lemma validate_email_length: "length (validate_email cfg e []) \<le> 1"
  by (simp add: validate_email_def)

lemma validate_subject_length: "length (validate_subject s []) \<le> 1"
  by (simp add: validate_subject_def)

lemma validate_reason_length: "length (validate_reason r []) \<le> 1"
  by (simp add: validate_reason_def)

lemma validate_message_length: "length (validate_message m []) \<le> 1"
  by (simp add: validate_message_def)

lemma validate_fullName_append: "validate_fullName n errs = errs @ validate_fullName n []"
  by (simp add: validate_fullName_def)

lemma validate_email_append: "validate_email cfg e errs = errs @ validate_email cfg e []"
  by (simp add: validate_email_def)

lemma validate_subject_append: "validate_subject s errs = errs @ validate_subject s []"
  by (simp add: validate_subject_def)

lemma validate_reason_append: "validate_reason r errs = errs @ validate_reason r []"
  by (simp add: validate_reason_def)

lemma validate_message_append: "validate_message m errs = errs @ validate_message m []"
  by (simp add: validate_message_def)

lemma validate_parts:
  "validate cfg n e s r m =
     validate_fullName n [] @ validate_email cfg e [] @ validate_subject s []
       @ validate_reason r [] @ validate_message m []"
proof -
  have "validate cfg n e s r m =
          validate_message m (validate_reason r (validate_subject s
            (validate_email cfg e (validate_fullName n []))))"
    by (simp add: validate_def)
  also have "\<dots> = (((validate_fullName n [] @ validate_email cfg e []) @ validate_subject s [])
                    @ validate_reason r []) @ validate_message m []"
    using validate_message_append validate_reason_append validate_subject_append
      validate_email_append by metis
  finally show ?thesis by simp
qed

lemma first_failing_length: "length (first_failing rules) \<le> 1"
  by (induction rules rule: first_failing.induct) simp_all

lemma local_at_domain_has_at: "local_at_domain s \<Longrightarrow> CHR ''@'' \<in> set s"
  by (auto simp: local_at_domain_def)


subsection \<open>Bytes and characters\<close>







subsection \<open>The database section\<close>

lemma database_insertion_releases:
  "open_conns (snd (database_insertion cfg db r w)) = open_conns w
   \<and> open_stmts (snd (database_insertion cfg db r w)) = open_stmts w"
  by (simp add: database_insertion_def try_insert_def catch_exception_def stmt_close_def
      conn_close_def Let_def
      split: connect_outcome.split prepare_outcome.split execute_outcome.split)

lemma database_insertion_connects:
  "connects (snd (database_insertion cfg db r w)) =
     (if on_connect db = ConnOk then Suc (connects w) else connects w)"
  by (simp add: database_insertion_def try_insert_def catch_exception_def stmt_close_def
      conn_close_def Let_def
      split: connect_outcome.split prepare_outcome.split execute_outcome.split)

subsection \<open>The email pattern\<close>



lemma valid_jane: "isValidEmail ''jane@example.com''"
  by code_simp

lemma invalid_bad_email: "\<not> isValidEmail ''bad-email''"
  by code_simp



lemma spec_validateEmail_shape: "spec_validateEmail s = local_at_domain s"
proof
  assume v: "spec_validateEmail s"
  let ?l = "takeWhile (\<lambda>c. c \<noteq> CHR ''@'') s"
  let ?r = "dropWhile (\<lambda>c. c \<noteq> CHR ''@'') s"
  from v have ne: "?l \<noteq> []" "?r \<noteq> []" "tl ?r \<noteq> []"
    and cls: "list_all not_space_at (?l @ tl ?r)"
    by (simp_all add: spec_validateEmail_def Let_def)
  have "hd ?r = CHR ''@''"
    using ne(2) hd_dropWhile [of "\<lambda>c. c \<noteq> CHR ''@''" s] by simp
  then have r: "?r = ''@'' @ tl ?r"
    using ne(2) by (cases ?r) simp_all
  have "s = ?l @ ?r" by simp
  then have "s = ?l @ ''@'' @ tl ?r" using r by metis
  then show "local_at_domain s"
    unfolding local_at_domain_def using ne cls by blast
next
  assume "local_at_domain s"
  then obtain l d where s: "s = l @ ''@'' @ d" and ne: "l \<noteq> []" "d \<noteq> []"
    and cls: "list_all not_space_at (l @ d)"
    unfolding local_at_domain_def by auto
  have noat: "\<forall>c \<in> set l. c \<noteq> CHR ''@''"
    using cls by (auto simp: list_all_iff not_space_at_def)
  have t: "takeWhile (\<lambda>c. c \<noteq> CHR ''@'') s = l"
    unfolding s using noat by (simp add: takeWhile_append2 cong: takeWhile_cong)
  have d: "dropWhile (\<lambda>c. c \<noteq> CHR ''@'') s = ''@'' @ d"
    unfolding s using noat by (simp add: dropWhile_append2 cong: dropWhile_cong)
  show "spec_validateEmail s"
    using t d ne cls by (simp add: spec_validateEmail_def Let_def)
qed





subsection \<open>The client\<close>

lemma same_controls_refl: "same_controls f f"
  by (simp add: same_controls_def)

lemma same_controls_trans: "same_controls f g \<Longrightarrow> same_controls g h \<Longrightarrow> same_controls f h"
  by (simp add: same_controls_def)

lemma showError_same: "same_controls (showError f c m) f"
  by (cases c) (simp_all add: same_controls_def showError_def Let_def)

lemma clearError_same: "same_controls (clearError f c) f"
  by (cases c) (simp_all add: same_controls_def clearError_def Let_def)

lemma cleared_same: "same_controls (foldl clearError f cs) f"
proof (induction cs arbitrary: f)
  case Nil
  show ?case by (simp add: same_controls_refl)
next
  case (Cons c cs)
  have "same_controls (foldl clearError (clearError f c) cs) (clearError f c)"
    by (rule Cons.IH)
  then show ?case
    using clearError_same [of f c] same_controls_trans by auto
qed

lemma check_fullname_same: "same_controls (snd (check_fullname s)) (snd s)"
  by (cases s) (simp add: showError_same same_controls_refl)

lemma check_email_same: "same_controls (snd (check_email s)) (snd s)"
  by (cases s) (simp add: showError_same same_controls_refl)

lemma check_reason_same: "same_controls (snd (check_reason s)) (snd s)"
  by (cases s) (simp add: showError_same same_controls_refl)

lemma check_subject_same: "same_controls (snd (check_subject s)) (snd s)"
  by (cases s) (simp add: showError_same same_controls_refl)

lemma check_message_same: "same_controls (snd (check_message s)) (snd s)"
  by (cases s) (simp add: showError_same same_controls_refl)

lemma check_fullname_fst:
  "fst (check_fullname s) \<longleftrightarrow> fst s \<and> trim (val (fullname (snd s))) \<noteq> []"
  by (cases s) simp

lemma check_email_fst:
  "fst (check_email s) \<longleftrightarrow>
     fst s \<and> trim (val (email (snd s))) \<noteq> [] \<and> isValidEmail (trim (val (email (snd s))))"
  by (cases s) simp

lemma check_reason_fst: "fst (check_reason s) \<longleftrightarrow> fst s \<and> val (reason (snd s)) \<noteq> []"
  by (cases s) simp

lemma check_subject_fst:
  "fst (check_subject s) \<longleftrightarrow> fst s \<and> trim (val (subject (snd s))) \<noteq> []"
  by (cases s) simp

lemma check_message_fst:
  "fst (check_message s) \<longleftrightarrow> fst s \<and> 10 \<le> length (trim (val (message (snd s))))"
  by (cases s) auto

lemma validateForm_steps: "validateForm f = check_message (after_subject f)"
  by (simp add: validateForm_def after_subject_def after_reason_def after_email_def
      after_fullname_def after_clear_def)

lemma after_clear_same: "same_controls (snd (after_clear f)) f"
  unfolding after_clear_def snd_conv by (rule cleared_same)

lemma after_fullname_same: "same_controls (snd (after_fullname f)) f"
  unfolding after_fullname_def
  using check_fullname_same after_clear_same same_controls_trans by blast

lemma after_email_same: "same_controls (snd (after_email f)) f"
  unfolding after_email_def
  using check_email_same after_fullname_same same_controls_trans by blast

lemma after_reason_same: "same_controls (snd (after_reason f)) f"
  unfolding after_reason_def
  using check_reason_same after_email_same same_controls_trans by blast

lemma after_subject_same: "same_controls (snd (after_subject f)) f"
  unfolding after_subject_def
  using check_subject_same after_reason_same same_controls_trans by blast

lemma validateForm_same: "same_controls (snd (validateForm f)) f"
  unfolding validateForm_steps
  using check_message_same after_subject_same same_controls_trans by blast

lemma validateForm_fst:
  "fst (validateForm f) \<longleftrightarrow>
     trim (val (fullname f)) \<noteq> [] \<and> trim (val (email f)) \<noteq> []
     \<and> isValidEmail (trim (val (email f))) \<and> val (reason f) \<noteq> []
     \<and> trim (val (subject f)) \<noteq> [] \<and> 10 \<le> length (trim (val (message f)))"
proof -
  have 0: "fst (after_clear f)" by (simp add: after_clear_def)
  have 1: "fst (after_fullname f) \<longleftrightarrow> trim (val (fullname f)) \<noteq> []"
    using 0 after_clear_same [of f]
    by (simp add: after_fullname_def check_fullname_fst same_controls_def)
  have 2: "fst (after_email f) \<longleftrightarrow> fst (after_fullname f) \<and> trim (val (email f)) \<noteq> []
             \<and> isValidEmail (trim (val (email f)))"
    using after_fullname_same [of f]
    by (simp add: after_email_def check_email_fst same_controls_def)
  have 3: "fst (after_reason f) \<longleftrightarrow> fst (after_email f) \<and> val (reason f) \<noteq> []"
    using after_email_same [of f]
    by (simp add: after_reason_def check_reason_fst same_controls_def)
  have 4: "fst (after_subject f) \<longleftrightarrow> fst (after_reason f) \<and> trim (val (subject f)) \<noteq> []"
    using after_reason_same [of f]
    by (simp add: after_subject_def check_subject_fst same_controls_def)
  have 5: "fst (validateForm f) \<longleftrightarrow> fst (after_subject f)
             \<and> 10 \<le> length (trim (val (message f)))"
    using after_subject_same [of f]
    by (simp add: validateForm_steps check_message_fst same_controls_def)
  show ?thesis using 1 2 3 4 5 by blast
qed



















lemma try_fetch_button: "submitButton (try_fetch p out) = submitButton p"
  by (simp add: try_fetch_def catch_fetch_def showSubmissionError_def showSuccessMessage_def
      split: fetch_outcome.split option.split)

lemma try_fetch_fetches: "fetches (try_fetch p out) = fetches p"
  by (simp add: try_fetch_def catch_fetch_def showSubmissionError_def showSuccessMessage_def
      split: fetch_outcome.split option.split)

lemma submit_opacity:
  "fst (validateForm (contact_form p)) \<Longrightarrow> opacity (submitButton (submit p out)) = ''1''"
  by (cases "validateForm (contact_form p)") (simp add: submit_def Let_def)

section \<open>The honeypot (C1)\<close>

text \<open>
  C1, as amended. The script validates the five fields before it looks at the honeypot.
  For every POST request whose field \<open>website\<close> is set to a value other than the empty
  string and \<open>"0"\<close>: when the five sanitized fields pass validation, the response is the
  generic spam response and the state is unchanged; when they do not, the response is
  the validation failure listing the violations, and the state is unchanged as well.
  Either way the status is 400, \<open>success\<close> is false and nothing is persisted.
\<close>

theorem honeypot_after_validation:
  assumes "request_method req = ''POST''"
    and "post req ''website'' = Some v" and "v \<noteq> []" and "v \<noteq> ''0''"
    and "errors = validate cfg (post_field cfg req ''fullname'') (post_field cfg req ''email'')
           (post_field cfg req ''subject'') (post_field cfg req ''reason'')
           (post_field cfg req ''message'')"
  shows "(errors = [] \<longrightarrow> process_form cfg db req w = (spam_detected, w))
       \<and> (errors \<noteq> [] \<longrightarrow> process_form cfg db req w = (validation_failed errors, w))
       \<and> (\<exists>body. process_form cfg db req w = (Json 400 body, w) \<and> \<not> json_success body)"
  using assms
  by (simp add: process_form_def honeypot_def php_empty_def Let_def spam_detected_def
      validation_failed_def)

text \<open>Scenario C: valid fields and a filled honeypot give the spam response.\<close>

theorem honeypot_after_validation_witness:
  "process_form spec_config db_up scenario_C empty_world = (spam_detected, empty_world)"
proof -
  have h: "request_method scenario_C = ''POST''"
    "post scenario_C ''website'' = Some ''http://spam.example''"
    "''http://spam.example'' \<noteq> []" "''http://spam.example'' \<noteq> ''0''"
    by (simp_all add: eval_defs)
  have v: "validate spec_config (post_field spec_config scenario_C ''fullname'')
             (post_field spec_config scenario_C ''email'')
             (post_field spec_config scenario_C ''subject'')
             (post_field spec_config scenario_C ''reason'')
             (post_field spec_config scenario_C ''message'') = []"
    by (simp add: eval_defs)
  show ?thesis
    using honeypot_after_validation [OF h v [symmetric], of db_up empty_world] by simp
qed

text \<open>
  C1 as stated fails: the fields of scenario B with the honeypot filled are answered with
  the validation failure, not with the spam response.
\<close>

theorem honeypot_not_always_spam:
  "post scenario_B_honeypot ''website'' = Some ''http://spam.example''
   \<and> request_method scenario_B_honeypot = ''POST''
   \<and> fst (process_form spec_config db_up scenario_B_honeypot empty_world) \<noteq> spam_detected"
  by (simp add: process_form_def Let_def eval_defs spam_detected_def validation_failed_def)

section \<open>Client and server validation (C2)\<close>

text \<open>
  C2, as amended. The client enforces a part of the server's rules only:
  \<open>validateForm\<close> accepts exactly when the trimmed name, email and subject are
  non-empty, the trimmed email matches the pattern, a reason is selected, and the
  trimmed message has at least 10 characters. It checks no minimum length of name or
  subject, no maximum length, and no membership of the reason.
\<close>

theorem validateForm_accepts_iff:
  "fst (validateForm f) \<longleftrightarrow>
     trim (val (fullname f)) \<noteq> [] \<and> trim (val (email f)) \<noteq> []
     \<and> isValidEmail (trim (val (email f))) \<and> val (reason f) \<noteq> []
     \<and> trim (val (subject f)) \<noteq> [] \<and> 10 \<le> length (trim (val (message f)))"
  by (rule validateForm_fst)

text \<open>The form of scenario A is accepted, and one with a malformed email is not.\<close>

theorem validateForm_accepts_iff_witness:
  "fst (validateForm form_A) \<and> \<not> fst (validateForm form_bad_email)"
  using validateForm_accepts_iff [of form_A] validateForm_accepts_iff [of form_bad_email]
  by (simp add: form_defs valid_jane invalid_bad_email)

text \<open>
  C2 as stated fails: the client accepts the one-character name \<open>J\<close>, and the server
  rejects the same values after sanitizing them.
\<close>

theorem client_accepts_what_server_rejects:
  "fst (validateForm form_short_name)
   \<and> validate spec_config
        (sanitizeInput spec_config (val (fullname form_short_name)))
        (sanitizeInput spec_config (val (email form_short_name)))
        (sanitizeInput spec_config (val (subject form_short_name)))
        (sanitizeInput spec_config (val (reason form_short_name)))
        (sanitizeInput spec_config (val (message form_short_name)))
       = [''Full name must be at least 2 characters long.'']"
proof -
  have "fst (validateForm form_short_name)"
    by (simp add: validateForm_fst form_defs valid_jane)
  then show ?thesis
    by (simp add: form_defs eval_defs)
qed

section \<open>Scenario B (C3)\<close>

text \<open>
  C3. The five blocks run one after the other whatever the earlier ones found: the
  list of violations is the concatenation of what each block reports on its own. For a
  POST request with the fields of scenario B, a sanitizer that leaves these five
  values as they are and an email check that rejects \<open>bad-email\<close>, the response is
  400 with \<open>success\<close> false and all five violations in the list: name length, email
  format, subject length, reason required and message length.
\<close>

theorem scenario_B_all_violations:
  assumes "request_method req = ''POST''"
    and "post req ''fullname'' = Some ''J''" and "post req ''email'' = Some ''bad-email''"
    and "post req ''subject'' = Some ''Hi''" and "post req ''reason'' = Some []"
    and "post req ''message'' = Some ''short''"
    and "sanitizeInput cfg ''J'' = ''J''" and "sanitizeInput cfg ''bad-email'' = ''bad-email''"
    and "sanitizeInput cfg ''Hi'' = ''Hi''" and "sanitizeInput cfg [] = []"
    and "sanitizeInput cfg ''short'' = ''short''"
    and "\<not> validateEmail cfg ''bad-email''"
  shows "process_form cfg db req w =
    (Json 400
      \<lparr>json_success = False,
       json_message = ''Validation failed: '' @ implode '' ''
         [''Full name must be at least 2 characters long.'',
          ''Please provide a valid email address.'',
          ''Subject must be at least 3 characters long.'',
          ''Please select a reason for contact.'',
          ''Message must be at least 10 characters long.''],
       json_errors = Some
         [''Full name must be at least 2 characters long.'',
          ''Please provide a valid email address.'',
          ''Subject must be at least 3 characters long.'',
          ''Please select a reason for contact.'',
          ''Message must be at least 10 characters long.''],
       json_id = None\<rparr>, w)
    \<and> validate cfg n e s r m =
        validate_fullName n [] @ validate_email cfg e [] @ validate_subject s []
          @ validate_reason r [] @ validate_message m []"
proof -
  have v: "validate cfg ''J'' ''bad-email'' ''Hi'' [] ''short'' =
         [''Full name must be at least 2 characters long.'',
          ''Please provide a valid email address.'',
          ''Subject must be at least 3 characters long.'',
          ''Please select a reason for contact.'',
          ''Message must be at least 10 characters long.'']"
    using assms(12)
    by (simp add: validate_def validate_fullName_def validate_email_def validate_subject_def
        validate_reason_def validate_message_def php_empty_def strlen_def)
  have "process_form cfg db req w =
      (validation_failed (validate cfg ''J'' ''bad-email'' ''Hi'' [] ''short''), w)"
    using assms v
    by (simp add: process_form_def post_field_def Let_def)
  then show ?thesis
    using v validate_parts [of cfg n e s r m]
    by (simp add: validation_failed_def)
qed

text \<open>The configuration modelled from the specification meets the hypotheses.\<close>

theorem scenario_B_all_violations_witness:
  "process_form spec_config db_up scenario_B empty_world =
    (Json 400
      \<lparr>json_success = False,
       json_message = ''Validation failed: Full name must be at least 2 characters long. Please provide a valid email address. Subject must be at least 3 characters long. Please select a reason for contact. Message must be at least 10 characters long.'',
       json_errors = Some
         [''Full name must be at least 2 characters long.'',
          ''Please provide a valid email address.'',
          ''Subject must be at least 3 characters long.'',
          ''Please select a reason for contact.'',
          ''Message must be at least 10 characters long.''],
       json_id = None\<rparr>, empty_world)"
proof -
  have h: "request_method scenario_B = ''POST''"
    "post scenario_B ''fullname'' = Some ''J''" "post scenario_B ''email'' = Some ''bad-email''"
    "post scenario_B ''subject'' = Some ''Hi''" "post scenario_B ''reason'' = Some []"
    "post scenario_B ''message'' = Some ''short''"
    "sanitizeInput spec_config ''J'' = ''J''"
    "sanitizeInput spec_config ''bad-email'' = ''bad-email''"
    "sanitizeInput spec_config ''Hi'' = ''Hi''" "sanitizeInput spec_config [] = []"
    "sanitizeInput spec_config ''short'' = ''short''"
    "\<not> validateEmail spec_config ''bad-email''"
    by (simp_all add: eval_defs)
  show ?thesis
    using scenario_B_all_violations [OF h, of db_up empty_world] by simp
qed

section \<open>The email format check (C4)\<close>




section \<open>The reason (C5)\<close>

text \<open>
  C5 at the reason \<open>"0"\<close>. The string is not empty and is none of the four reasons,
  yet \<open>empty\<close> holds of it: the block reports it as a missing selection, not as an
  invalid one. A request that posts it is answered with that message alone.
\<close>

theorem reason_zero_reported_as_missing:
  "''0'' \<noteq> [] \<and> \<not> in_array ''0'' validReasons
   \<and> validate_reason ''0'' errs = errs @ [''Please select a reason for contact.'']
   \<and> ''Invalid reason selected.'' \<notin> set (validate_reason ''0'' [])
   \<and> process_form spec_config db_up scenario_reason_zero empty_world =
       (validation_failed [''Please select a reason for contact.''], empty_world)"
  by (simp add: process_form_def Let_def eval_defs)

section \<open>The boundaries of the message length (C6)\<close>




section \<open>Rejections before the database (C7)\<close>

text \<open>
  C7. A request with another method than POST is answered with 405, one whose fields
  fail validation with the validation failure, one that passes validation with the
  honeypot filled with the spam response; each time the state after the script is the
  state before it. Whenever the script answers 405 or 400, the state is unchanged: no
  connection was opened and no row inserted.
\<close>

theorem rejection_before_database:
  "(request_method req \<noteq> ''POST'' \<longrightarrow> process_form cfg db req w = (method_not_allowed, w))
   \<and> (request_method req = ''POST'' \<and> errors = validate cfg (post_field cfg req ''fullname'')
          (post_field cfg req ''email'') (post_field cfg req ''subject'')
          (post_field cfg req ''reason'') (post_field cfg req ''message'') \<and> errors \<noteq> []
        \<longrightarrow> process_form cfg db req w = (validation_failed errors, w))
   \<and> (request_method req = ''POST'' \<and> validate cfg (post_field cfg req ''fullname'')
          (post_field cfg req ''email'') (post_field cfg req ''subject'')
          (post_field cfg req ''reason'') (post_field cfg req ''message'') = [] \<and> honeypot req
        \<longrightarrow> process_form cfg db req w = (spam_detected, w))
   \<and> (\<forall>st body w'. process_form cfg db req w = (Json st body, w') \<and> (st = 405 \<or> st = 400)
        \<longrightarrow> w' = w \<and> connects w' = connects w
            \<and> contact_messages w' = contact_messages w)"
  by (auto simp: process_form_def Let_def database_insertion_def try_insert_def
      catch_exception_def method_not_allowed_def validation_failed_def spam_detected_def
      split: connect_outcome.splits prepare_outcome.splits execute_outcome.splits if_splits)

text \<open>Scenarios D, B and C leave the empty table as it is.\<close>

theorem rejection_before_database_witness:
  "process_form spec_config db_up scenario_D empty_world = (method_not_allowed, empty_world)
   \<and> process_form spec_config db_up scenario_B empty_world =
       (validation_failed
         [''Full name must be at least 2 characters long.'',
          ''Please provide a valid email address.'',
          ''Subject must be at least 3 characters long.'',
          ''Please select a reason for contact.'',
          ''Message must be at least 10 characters long.''], empty_world)
   \<and> process_form spec_config db_up scenario_C empty_world = (spam_detected, empty_world)"
proof -
  let ?errors = "[''Full name must be at least 2 characters long.'',
          ''Please provide a valid email address.'',
          ''Subject must be at least 3 characters long.'',
          ''Please select a reason for contact.'',
          ''Message must be at least 10 characters long.'']"
  have d: "request_method scenario_D \<noteq> ''POST''"
    by (simp add: eval_defs)
  have b: "request_method scenario_B = ''POST''
    \<and> ?errors = validate spec_config (post_field spec_config scenario_B ''fullname'')
       (post_field spec_config scenario_B ''email'')
       (post_field spec_config scenario_B ''subject'')
       (post_field spec_config scenario_B ''reason'')
       (post_field spec_config scenario_B ''message'')
    \<and> ?errors \<noteq> []"
    by (simp add: eval_defs)
  have c: "request_method scenario_C = ''POST''
    \<and> validate spec_config (post_field spec_config scenario_C ''fullname'')
       (post_field spec_config scenario_C ''email'')
       (post_field spec_config scenario_C ''subject'')
       (post_field spec_config scenario_C ''reason'')
       (post_field spec_config scenario_C ''message'') = []
    \<and> honeypot scenario_C"
    by (simp add: eval_defs)
  have "process_form spec_config db_up scenario_D empty_world = (method_not_allowed, empty_world)"
    using d rejection_before_database [of scenario_D spec_config db_up empty_world] by blast
  moreover have "process_form spec_config db_up scenario_B empty_world =
      (validation_failed ?errors, empty_world)"
    using b rejection_before_database [of scenario_B spec_config db_up empty_world ?errors]
    by blast
  moreover have "process_form spec_config db_up scenario_C empty_world =
      (spam_detected, empty_world)"
    using c rejection_before_database [of scenario_C spec_config db_up empty_world] by blast
  ultimately show ?thesis by blast
qed

section \<open>The connection is released (C8)\<close>

text \<open>
  C8. Whatever the database does (the insert succeeds, \<open>prepare\<close> or \<open>execute\<close>
  returns false, or any of the calls throws), the database section leaves as many
  connections and statements open as it found, although it opened one connection
  whenever the factory returned one. The same holds of the whole script.
\<close>

theorem connection_released:
  "open_conns (snd (database_insertion cfg db r w)) = open_conns w
   \<and> open_stmts (snd (database_insertion cfg db r w)) = open_stmts w
   \<and> connects (snd (database_insertion cfg db r w)) =
       (if on_connect db = ConnOk then Suc (connects w) else connects w)
   \<and> open_conns (snd (process_form cfg db req w)) = open_conns w
   \<and> open_stmts (snd (process_form cfg db req w)) = open_stmts w"
  using database_insertion_releases database_insertion_connects
  by (simp add: process_form_def Let_def)

section \<open>The submit button (C9)\<close>

text \<open>
  C9, as amended. For every submission that passes \<open>validateForm\<close>, one request is
  sent and, however it settles, the submit button ends enabled, with the label it had
  before the submission and with its opacity set to \<open>1\<close>, whatever the opacity was
  before. A submission that fails \<open>validateForm\<close> sends no request and leaves the
  button as it was.
\<close>

theorem submit_button_reenabled:
  "(fst (validateForm (contact_form p)) \<longrightarrow>
      fetches (submit p out) = Suc (fetches p)
      \<and> \<not> disabled (submitButton (submit p out))
      \<and> textContent (submitButton (submit p out)) = textContent (submitButton p)
      \<and> opacity (submitButton (submit p out)) = ''1'')
   \<and> (\<not> fst (validateForm (contact_form p)) \<longrightarrow>
      fetches (submit p out) = fetches p \<and> submitButton (submit p out) = submitButton p)"
  by (simp add: submit_def Let_def try_fetch_button try_fetch_fetches split: prod.split)

text \<open>The form of scenario A with a failing network, and the blank form.\<close>

theorem submit_button_reenabled_witness:
  "submitButton (submit page_A NetworkError) =
     \<lparr>disabled = False, textContent = ''Send Message'', opacity = ''1''\<rparr>
   \<and> fetches (submit page_A NetworkError) = 1
   \<and> fetches (submit (page_A\<lparr>contact_form := form_blank\<rparr>) NetworkError) = 0"
proof -
  have a: "fst (validateForm (contact_form page_A))"
    by (simp add: validateForm_fst form_defs valid_jane)
  have b: "\<not> fst (validateForm (contact_form (page_A\<lparr>contact_form := form_blank\<rparr>)))"
    by (simp add: validateForm_fst form_defs)
  show ?thesis
    using a b submit_button_reenabled [of page_A NetworkError]
      submit_button_reenabled [of "page_A\<lparr>contact_form := form_blank\<rparr>" NetworkError]
    by (simp add: page_A_def button.equality)
qed

text \<open>
  C9 as stated fails: a button whose opacity was \<open>0.5\<close>, or was not set, does not
  get that opacity back.
\<close>

theorem opacity_not_restored:
  "fst (validateForm (contact_form page_dim))
   \<and> opacity (submitButton page_dim) = ''0.5''
   \<and> opacity (submitButton (submit page_dim NetworkError)) = ''1''
   \<and> opacity (submitButton (submit page_dim NetworkError)) \<noteq> opacity (submitButton page_dim)
   \<and> opacity (submitButton page_A) = []
   \<and> opacity (submitButton (submit page_A NetworkError)) \<noteq> opacity (submitButton page_A)"
proof -
  have v: "fst (validateForm (contact_form page_dim))" "fst (validateForm (contact_form page_A))"
    by (simp_all add: validateForm_fst form_defs valid_jane)
  show ?thesis
    using v submit_opacity [of page_dim NetworkError] submit_opacity [of page_A NetworkError]
    by (simp add: page_dim_def page_A_def)
qed

section \<open>One message for each field (C10)\<close>

text \<open>
  C10. In each field the rules are tried in order, the required rule first, then the
  minimum length or the format, then the maximum length or the membership, and the
  first rule that fails contributes its message and no other does. The list of
  violations is the concatenation of the five parts in the script's order, each of at
  most one message, so it has at most five entries. An empty field gets its
  "required" message and nothing else.
\<close>

theorem one_message_per_field:
  "validate_fullName n [] =
     first_failing [(php_empty n, ''Full name is required.''),
                    (strlen n < 2, ''Full name must be at least 2 characters long.''),
                    (strlen n > 100, ''Full name must not exceed 100 characters.'')]
   \<and> validate_email cfg e [] =
     first_failing [(php_empty e, ''Email address is required.''),
                    (\<not> validateEmail cfg e, ''Please provide a valid email address.''),
                    (strlen e > 255, ''Email address is too long.'')]
   \<and> validate_subject s [] =
     first_failing [(php_empty s, ''Subject is required.''),
                    (strlen s < 3, ''Subject must be at least 3 characters long.''),
                    (strlen s > 255, ''Subject must not exceed 255 characters.'')]
   \<and> validate_reason r [] =
     first_failing [(php_empty r, ''Please select a reason for contact.''),
                    (r \<notin> {''job'', ''project'', ''feedback'', ''other''},
                     ''Invalid reason selected.'')]
   \<and> validate_message m [] =
     first_failing [(php_empty m, ''Message is required.''),
                    (strlen m < 10, ''Message must be at least 10 characters long.''),
                    (strlen m > 5000, ''Message must not exceed 5000 characters.'')]
   \<and> length (first_failing rules) \<le> 1
   \<and> length (validate cfg n e s r m) \<le> 5
   \<and> validate cfg n e s r m =
       validate_fullName n [] @ validate_email cfg e [] @ validate_subject s []
         @ validate_reason r [] @ validate_message m []
   \<and> length (validate_fullName n []) \<le> 1 \<and> length (validate_email cfg e []) \<le> 1
   \<and> length (validate_subject s []) \<le> 1 \<and> length (validate_reason r []) \<le> 1
   \<and> length (validate_message m []) \<le> 1
   \<and> validate_fullName [] errs = errs @ [''Full name is required.'']
   \<and> validate_email cfg [] errs = errs @ [''Email address is required.'']
   \<and> validate_subject [] errs = errs @ [''Subject is required.'']
   \<and> validate_reason [] errs = errs @ [''Please select a reason for contact.'']
   \<and> validate_message [] errs = errs @ [''Message is required.'']"
proof -
  have order:
    "validate_fullName n [] =
       first_failing [(php_empty n, ''Full name is required.''),
                      (strlen n < 2, ''Full name must be at least 2 characters long.''),
                      (strlen n > 100, ''Full name must not exceed 100 characters.'')]"
    "validate_email cfg e [] =
       first_failing [(php_empty e, ''Email address is required.''),
                      (\<not> validateEmail cfg e, ''Please provide a valid email address.''),
                      (strlen e > 255, ''Email address is too long.'')]"
    "validate_subject s [] =
       first_failing [(php_empty s, ''Subject is required.''),
                      (strlen s < 3, ''Subject must be at least 3 characters long.''),
                      (strlen s > 255, ''Subject must not exceed 255 characters.'')]"
    "validate_reason r [] =
       first_failing [(php_empty r, ''Please select a reason for contact.''),
                      (r \<notin> {''job'', ''project'', ''feedback'', ''other''},
                       ''Invalid reason selected.'')]"
    "validate_message m [] =
       first_failing [(php_empty m, ''Message is required.''),
                      (strlen m < 10, ''Message must be at least 10 characters long.''),
                      (strlen m > 5000, ''Message must not exceed 5000 characters.'')]"
    by (simp_all add: validate_fullName_def validate_email_def validate_subject_def
        validate_reason_def validate_message_def in_array_def validReasons_def)
  have len: "length (validate cfg n e s r m) \<le> 5"
    using validate_fullName_length [of n] validate_email_length [of cfg e]
      validate_subject_length [of s] validate_reason_length [of r]
      validate_message_length [of m]
    by (simp add: validate_parts)
  have empties:
    "validate_fullName [] errs = errs @ [''Full name is required.'']"
    "validate_email cfg [] errs = errs @ [''Email address is required.'']"
    "validate_subject [] errs = errs @ [''Subject is required.'']"
    "validate_reason [] errs = errs @ [''Please select a reason for contact.'']"
    "validate_message [] errs = errs @ [''Message is required.'']"
    by (simp_all add: validate_fullName_def validate_email_def validate_subject_def
        validate_reason_def validate_message_def php_empty_def)
  show ?thesis
    using order len validate_parts [of cfg n e s r m] empties first_failing_length [of rules]
      validate_fullName_length [of n] validate_email_length [of cfg e]
      validate_subject_length [of s] validate_reason_length [of r]
      validate_message_length [of m]
    by blast
qed
text \<open>
  An email of 300 letters fails the format rule and the length rule and is reported
  for the format; the reason \<open>JOB\<close> is reported as invalid.
\<close>

theorem one_message_per_field_witness:
  "validate spec_config [] (replicate 300 CHR ''x'') ''Hi'' ''JOB'' (replicate 5001 CHR ''a'') =
     [''Full name is required.'', ''Please provide a valid email address.'',
      ''Subject must be at least 3 characters long.'', ''Invalid reason selected.'',
      ''Message must not exceed 5000 characters.'']"
proof -
  let ?e = "replicate 300 CHR ''x''" and ?m = "replicate 5001 CHR ''a''"
  note T = one_message_per_field [of "[]" spec_config ?e "''Hi''" "''JOB''" ?m "[]" "[]"]
  have e: "\<not> php_empty ?e" "\<not> validateEmail spec_config ?e"
    using php_empty_length [of ?e] local_at_domain_has_at [of ?e]
    by (auto simp: spec_config_def spec_validateEmail_shape)
  have m: "\<not> php_empty ?m" "\<not> strlen ?m < 10" "strlen ?m > 5000"
    using php_empty_length [of ?m] by (auto simp: strlen_def)
  have "validate_fullName [] [] = [''Full name is required.'']"
    using T by (simp add: php_empty_def)
  moreover have "validate_email spec_config ?e [] = [''Please provide a valid email address.'']"
    using T e by simp
  moreover have "validate_subject ''Hi'' [] = [''Subject must be at least 3 characters long.'']"
    using T by (simp add: php_empty_def strlen_def)
  moreover have "validate_reason ''JOB'' [] = [''Invalid reason selected.'']"
    using T by (simp add: php_empty_def)
  moreover have "validate_message ?m [] = [''Message must not exceed 5000 characters.'']"
    using T m by simp
  moreover have "validate spec_config [] ?e ''Hi'' ''JOB'' ?m =
       validate_fullName [] [] @ validate_email spec_config ?e [] @ validate_subject ''Hi'' []
         @ validate_reason ''JOB'' [] @ validate_message ?m []"
    using T by blast
  ultimately show ?thesis by simp
qed

end
